theory Spec2Isabelle
  imports Main
begin

section \<open>JavaScript values\<close>

text \<open>
  The fields of a request (query parameters, JSON body fields) and the opaque values the
  collaborators hand back (tokens, profiles, salts, hashes) are JavaScript primitives.
  Numbers are the integers (no NaN, no fractions); objects and arrays are not values of
  a field.
\<close>

datatype jsval = JUndefined | JNull | JBool bool | JNum int | JStr string

text \<open>What \<^verbatim>\<open>if (v)\<close> and \<^verbatim>\<open>!v\<close> test.\<close>

fun truthy :: "jsval \<Rightarrow> bool" where
  "truthy JUndefined = False"
| "truthy JNull = False"
| "truthy (JBool b) = b"
| "truthy (JNum n) = (n \<noteq> 0)"
| "truthy (JStr s) = (s \<noteq> [])"

text \<open>\<^verbatim>\<open>a !== b\<close> on primitives: different type or different value.\<close>

definition strict_neq :: "jsval \<Rightarrow> jsval \<Rightarrow> bool" where
  "strict_neq a b = (a \<noteq> b)"

text \<open>The text a template literal \<^verbatim>\<open>`${v}`\<close> inserts for a value.\<close>

definition digit_char :: "nat \<Rightarrow> char" where
  "digit_char d = ''0123456789'' ! d"

fun string_of_nat :: "nat \<Rightarrow> string" where
  "string_of_nat n =
     (if n < 10 then [digit_char n] else string_of_nat (n div 10) @ [digit_char (n mod 10)])"

fun template_string :: "jsval \<Rightarrow> string" where
  "template_string JUndefined = ''undefined''"
| "template_string JNull = ''null''"
| "template_string (JBool b) = (if b then ''true'' else ''false'')"
| "template_string (JNum n) =
     (if n < 0 then CHR ''-'' # string_of_nat (nat (- n)) else string_of_nat (nat n))"
| "template_string (JStr s) = s"

section \<open>Errors\<close>

text \<open>
  The entries of \<^verbatim>\<open>CustomError.TYPES\<close> that the controller names:
  \<^verbatim>\<open>invalidParam\<close>, \<^verbatim>\<open>phoneCode.errorCode\<close>, \<^verbatim>\<open>register.registered\<close>,
  \<^verbatim>\<open>login.unRegistered\<close>, \<^verbatim>\<open>login.passwordError\<close>, \<^verbatim>\<open>token.error\<close>,
  \<^verbatim>\<open>token.expired\<close>, \<^verbatim>\<open>uploadError\<close>.
\<close>

datatype error_type =
    invalidParam
  | phoneCode_errorCode
  | register_registered
  | login_unRegistered
  | login_passwordError
  | token_error
  | token_expired
  | uploadError

text \<open>
  A thrown or reported error. \<open>CustomError t\<close> is \<^verbatim>\<open>new CustomError(CustomError.TYPES.t)\<close>;
  \<open>CustomErrorCodeMessage t e\<close> is
  \<^verbatim>\<open>new CustomError({ code: CustomError.TYPES.t.code, message: e.message })\<close>;
  \<open>TypeError\<close> and \<open>Error\<close> are the errors a collaborator or the runtime throws, with
  their message.
\<close>

datatype js_error =
    CustomError error_type
  | CustomErrorCodeMessage error_type js_error
  | TypeError string
  | Error string

section \<open>Requests and user records\<close>

record user =
  user_id :: int
  user_phone :: jsval
  user_password :: jsval
  user_pwd_key :: jsval
  user_nickname :: jsval
  user_avatar :: jsval
  user_token :: jsval
  user_token_expires_in :: jsval

text \<open>\<^verbatim>\<open>ctx.query\<close>: the parameters the controller reads.\<close>

record query =
  query_phone :: jsval
  query_token :: jsval

text \<open>\<^verbatim>\<open>ctx.request.body\<close>: the fields the controller destructures; an absent field is
  \<open>JUndefined\<close>.\<close>

record body =
  phone :: jsval
  code :: jsval
  password :: jsval
  rePassword :: jsval

text \<open>
  The request context. \<open>ctx_query\<close> is \<open>None\<close> when \<^verbatim>\<open>ctx.query\<close> is falsy (the
  source guards against it in \<^verbatim>\<open>refreshToken\<close>); \<open>ctx_userId\<close> is the id the session
  middleware stored.
\<close>

record request =
  ctx_query :: "query option"
  request_body :: body
  ctx_userId :: int

datatype file_stream = FileStream nat

record avatar_info =
  fileName :: jsval

section \<open>Effects\<close>

datatype rule_set = phoneRule | registerForm | loginForm

datatype validate_target = Query "query option" | Body body

datatype log_level = LogInfo | LogWarn | LogError

text \<open>
  What a logger call writes: \<open>ErrorsOf e\<close> is \<^verbatim>\<open>err.errors\<close>, \<open>TheError e\<close> is
  \<^verbatim>\<open>err\<close>, the others are the message of the source line named, with its arguments.
\<close>

datatype log_entry =
    ErrorsOf js_error
  | TheError js_error
  | CodeSent                     \<comment> \<open>line 26\<close>
  | UserCreated jsval int        \<comment> \<open>line 62: nickname, id\<close>
  | LoggedIn int                 \<comment> \<open>line 102\<close>
  | PasswordChanged int          \<comment> \<open>line 133\<close>
  | RefreshingToken              \<comment> \<open>line 145\<close>
  | TokenRefreshed int           \<comment> \<open>line 161\<close>
  | AvatarUploading int          \<comment> \<open>line 176\<close>
  | AvatarSaved jsval            \<comment> \<open>line 194: file name\<close>
  | AvatarChanged                \<comment> \<open>line 213\<close>
  | LoggedOut int                \<comment> \<open>line 222\<close>

text \<open>
  The first argument of \<^verbatim>\<open>this.success\<close>: none, or the message literal of the line
  named (user created, logged in, refreshed, profile fetched, modified, logged out).
\<close>

datatype success_message =
    NoMessage
  | CreateUserOk                 \<comment> \<open>line 58\<close>
  | LoginOk                      \<comment> \<open>line 101\<close>
  | RefreshOk                    \<comment> \<open>line 160\<close>
  | ProfileOk                    \<comment> \<open>line 168\<close>
  | ModifyOk                     \<comment> \<open>line 210\<close>
  | ExitLoginOk                  \<comment> \<open>line 220\<close>

text \<open>The second argument of \<^verbatim>\<open>this.success\<close>.\<close>

datatype payload =
    NoData
  | IdNickname int jsval         \<comment> \<open>\<^verbatim>\<open>{ id, nickname }\<close>\<close>
  | TokenData jsval
  | ProfileData jsval
  | UrlData string               \<comment> \<open>\<^verbatim>\<open>{ url }\<close>\<close>

text \<open>A call of \<^verbatim>\<open>this.success(msg, data)\<close> or of \<^verbatim>\<open>this.fail(err)\<close>.\<close>

datatype response = Success success_message payload | Fail js_error

text \<open>A call of a collaborator (service, model, helper, stream library), with its arguments.\<close>

datatype collaborator_call =
    SendPhoneCode jsval
  | CheckPhoneCode jsval jsval
  | FindByPhone jsval
  | CreateUser jsval jsval
  | CheckPassword user jsval
  | GenerateToken int
  | SecretPassword jsval
  | Save user
  | FindOneByToken jsval
  | IsExpired jsval
  | GetProfile int
  | GetFileStream
  | ToArray file_stream
  | SaveAvatar string int
  | SendToWormhole file_stream
  | UpdateAvatar string int
  | ClearToken int

datatype event = Call collaborator_call | Log log_level log_entry | Respond response

text \<open>
  A collaborator call runs on the world outside the controller (database, Redis, SMS
  gateway, disk, clock) and either throws or returns.
\<close>

type_synonym ('w, 'a) action = "'w \<Rightarrow> (js_error + 'a) \<times> 'w"

text \<open>
  The collaborators of the controller. None of them is defined in the controller file;
  they are parameters of the model. \<open>validate\<close> is \<^verbatim>\<open>ctx.validate\<close>:
  \<open>Some e\<close> when it throws \<open>e\<close>. \<open>checkPhoneCode\<close>, \<open>checkPassword\<close> and
  \<open>isExpired\<close> return the truthiness of what the source tests with \<^verbatim>\<open>!\<close> or
  \<^verbatim>\<open>if\<close>; \<open>checkPassword\<close>, \<open>secretPassword\<close> and \<open>isExpired\<close> are called
  without \<^verbatim>\<open>await\<close> and their results taken as plain values. \<open>findOneByToken t\<close> is
  \<^verbatim>\<open>User.findOne({ where: { token: t } })\<close>, \<open>updateAvatar url id\<close> is
  \<^verbatim>\<open>User.update({ avatar: url }, { where: { id } })\<close>, \<open>save u\<close> is \<^verbatim>\<open>u.save()\<close>.
  The logger and the base controller's \<^verbatim>\<open>success\<close> and \<^verbatim>\<open>fail\<close> do not throw; they
  are recorded in the trace with their arguments.
\<close>

record 'w collaborators =
  validate :: "rule_set \<Rightarrow> validate_target \<Rightarrow> js_error option"
  sendPhoneCode :: "jsval \<Rightarrow> ('w, unit) action"
  checkPhoneCode :: "jsval \<Rightarrow> jsval \<Rightarrow> ('w, bool) action"
  findByPhone :: "jsval \<Rightarrow> ('w, user option) action"
  createUser :: "jsval \<Rightarrow> jsval \<Rightarrow> ('w, user) action"
  checkPassword :: "user \<Rightarrow> jsval \<Rightarrow> ('w, bool) action"
  generateToken :: "int \<Rightarrow> ('w, jsval) action"
  secretPassword :: "jsval \<Rightarrow> ('w, jsval \<times> jsval) action"
  save :: "user \<Rightarrow> ('w, unit) action"
  findOneByToken :: "jsval \<Rightarrow> ('w, user option) action"
  isExpired :: "jsval \<Rightarrow> ('w, bool) action"
  getProfile :: "int \<Rightarrow> ('w, jsval) action"
  getFileStream :: "('w, file_stream) action"
  toArray :: "file_stream \<Rightarrow> ('w, string list) action"
  saveAvatar :: "string \<Rightarrow> int \<Rightarrow> ('w, avatar_info) action"
  sendToWormhole :: "file_stream \<Rightarrow> ('w, unit) action"
  updateAvatar :: "string \<Rightarrow> int \<Rightarrow> ('w, unit) action"
  clearToken :: "int \<Rightarrow> ('w, unit) action"

text \<open>
  A controller method runs on the world and the trace of what the request has done so
  far; \<open>Inl e\<close> is the exception \<open>e\<close> leaving the method (the promise rejects).
\<close>

type_synonym ('w, 'a) prog = "'w \<times> event list \<Rightarrow> (js_error + 'a) \<times> 'w \<times> event list"

definition ret :: "'a \<Rightarrow> ('w, 'a) prog" where
  "ret a = (\<lambda>s. (Inr a, s))"

definition throw :: "js_error \<Rightarrow> ('w, 'a) prog" where
  "throw e = (\<lambda>s. (Inl e, s))"

definition andThen :: "('w, 'a) prog \<Rightarrow> ('a \<Rightarrow> ('w, 'b) prog) \<Rightarrow> ('w, 'b) prog" where
  "andThen p k = (\<lambda>s. case p s of (Inl e, s') \<Rightarrow> (Inl e, s') | (Inr a, s') \<Rightarrow> k a s')"

text \<open>\<^verbatim>\<open>try { p } catch (err) { h err }\<close>.\<close>

definition try_catch :: "('w, 'a) prog \<Rightarrow> (js_error \<Rightarrow> ('w, 'a) prog) \<Rightarrow> ('w, 'a) prog" where
  "try_catch p h = (\<lambda>s. case p s of (Inl e, s') \<Rightarrow> h e s' | (Inr a, s') \<Rightarrow> (Inr a, s'))"

definition emit :: "event \<Rightarrow> ('w, unit) prog" where
  "emit ev = (\<lambda>(w, tr). (Inr (), (w, tr @ [ev])))"

definition call :: "collaborator_call \<Rightarrow> ('w, 'a) action \<Rightarrow> ('w, 'a) prog" where
  "call c f = (\<lambda>(w, tr). case f w of (r, w') \<Rightarrow> (r, (w', tr @ [Call c])))"

definition logger :: "log_level \<Rightarrow> log_entry \<Rightarrow> ('w, unit) prog" where
  "logger l x = emit (Log l x)"

definition success :: "success_message \<Rightarrow> payload \<Rightarrow> ('w, unit) prog" where
  "success m d = emit (Respond (Success m d))"

definition fail :: "js_error \<Rightarrow> ('w, unit) prog" where
  "fail e = emit (Respond (Fail e))"

section \<open>The user controller\<close>

text \<open>
  Each method of \<^verbatim>\<open>UserController\<close>, statement by statement. A \<^verbatim>\<open>return\<close> inside
  a branch ends the method there; the statements after the branch are the continuation of
  the other branches.
\<close>

definition getPhoneCode :: "'w collaborators \<Rightarrow> request \<Rightarrow> ('w, unit) prog" where
  "getPhoneCode env req =
     (case validate env phoneRule (Query (ctx_query req)) of
        Some err \<Rightarrow>
          andThen (logger LogInfo (ErrorsOf err)) (\<lambda>_.
          fail (CustomError invalidParam))
      | None \<Rightarrow>
          try_catch
            (andThen
               (case ctx_query req of
                  None \<Rightarrow> throw (TypeError ''Cannot read property 'phone' of undefined'')
                | Some q \<Rightarrow> call (SendPhoneCode (query_phone q)) (sendPhoneCode env (query_phone q)))
               (\<lambda>_. andThen (success NoMessage NoData) (\<lambda>_.
                     logger LogInfo CodeSent)))
            (\<lambda>err. andThen (logger LogWarn (TheError err)) (\<lambda>_.
                    fail err)))"

definition register :: "'w collaborators \<Rightarrow> request \<Rightarrow> ('w, unit) prog" where
  "register env req =
     (case validate env registerForm (Body (request_body req)) of
        Some err \<Rightarrow>
          andThen (logger LogInfo (ErrorsOf err)) (\<lambda>_.
          fail (CustomError invalidParam))
      | None \<Rightarrow>
          let b = request_body req in
          if strict_neq (password b) (rePassword b) then fail (CustomError invalidParam)
          else
            andThen (call (CheckPhoneCode (phone b) (code b)) (checkPhoneCode env (phone b) (code b)))
              (\<lambda>isCodeCorrect.
            if \<not> isCodeCorrect then fail (CustomError phoneCode_errorCode)
            else
              andThen (call (FindByPhone (phone b)) (findByPhone env (phone b))) (\<lambda>found.
              case found of
                Some _ \<Rightarrow> fail (CustomError register_registered)
              | None \<Rightarrow>
                  andThen (call (CreateUser (phone b) (password b))
                             (createUser env (phone b) (password b))) (\<lambda>u.
                  andThen (success CreateUserOk (IdNickname (user_id u) (user_nickname u))) (\<lambda>_.
                  logger LogInfo (UserCreated (user_nickname u) (user_id u)))))))"

definition login :: "'w collaborators \<Rightarrow> request \<Rightarrow> ('w, unit) prog" where
  "login env req =
     (case validate env loginForm (Body (request_body req)) of
        Some err \<Rightarrow>
          andThen (fail (CustomError invalidParam)) (\<lambda>_.
          logger LogWarn (ErrorsOf err))
      | None \<Rightarrow>
          let b = request_body req in
          andThen (call (FindByPhone (phone b)) (findByPhone env (phone b))) (\<lambda>found.
          case found of
            None \<Rightarrow> fail (CustomError login_unRegistered)
          | Some u \<Rightarrow>
              let userId = user_id u;
                  issue =
                    andThen (call (GenerateToken userId) (generateToken env userId)) (\<lambda>token.
                    andThen (success LoginOk (TokenData token)) (\<lambda>_.
                    logger LogInfo (LoggedIn userId)))
              in
              if truthy (password b) then
                andThen (call (CheckPassword u (password b)) (checkPassword env u (password b)))
                  (\<lambda>isPwdCorrect.
                if \<not> isPwdCorrect then fail (CustomError login_passwordError)
                else issue)
              else if truthy (code b) then
                andThen (call (CheckPhoneCode (phone b) (code b))
                           (checkPhoneCode env (phone b) (code b))) (\<lambda>isCodeCorrect.
                if \<not> isCodeCorrect then fail (CustomError phoneCode_errorCode)
                else issue)
              else issue))"

definition resetPassword :: "'w collaborators \<Rightarrow> request \<Rightarrow> ('w, unit) prog" where
  "resetPassword env req =
     (case validate env registerForm (Body (request_body req)) of
        Some err \<Rightarrow>
          andThen (logger LogInfo (ErrorsOf err)) (\<lambda>_.
          fail (CustomError invalidParam))
      | None \<Rightarrow>
          let b = request_body req in
          if strict_neq (password b) (rePassword b) then fail (CustomError invalidParam)
          else
            andThen (call (FindByPhone (phone b)) (findByPhone env (phone b))) (\<lambda>found.
            case found of
              None \<Rightarrow> fail (CustomError login_unRegistered)
            | Some u \<Rightarrow>
                andThen (call (CheckPhoneCode (phone b) (code b))
                           (checkPhoneCode env (phone b) (code b))) (\<lambda>isCodeCorrect.
                if \<not> isCodeCorrect then fail (CustomError phoneCode_errorCode)
                else
                  andThen (call (SecretPassword (password b)) (secretPassword env (password b)))
                    (\<lambda>(secret, signedPwd).
                  let u' = u\<lparr>user_pwd_key := secret, user_password := signedPwd\<rparr> in
                  andThen (call (Save u') (save env u')) (\<lambda>_.
                  andThen (success NoMessage NoData) (\<lambda>_.
                  logger LogInfo (PasswordChanged (user_id u'))))))))"

text \<open>\<^verbatim>\<open>ctx.query && ctx.query.token\<close>: falsy when there is no query or no token in it.\<close>

definition query_token_of :: "request \<Rightarrow> jsval" where
  "query_token_of req = (case ctx_query req of None \<Rightarrow> JUndefined | Some q \<Rightarrow> query_token q)"

definition refreshToken :: "'w collaborators \<Rightarrow> request \<Rightarrow> ('w, unit) prog" where
  "refreshToken env req =
     (let refreshToken = query_token_of req in
      if \<not> truthy refreshToken then fail (CustomError token_error)
      else
        andThen (logger LogInfo RefreshingToken) (\<lambda>_.
        andThen (call (FindOneByToken refreshToken) (findOneByToken env refreshToken)) (\<lambda>found.
        case found of
          None \<Rightarrow> fail (CustomError token_error)
        | Some u \<Rightarrow>
            andThen (call (IsExpired (user_token_expires_in u))
                       (isExpired env (user_token_expires_in u))) (\<lambda>expired.
            if expired then fail (CustomError token_expired)
            else
              let userId = user_id u in
              andThen (call (GenerateToken userId) (generateToken env userId)) (\<lambda>token.
              andThen (success RefreshOk (TokenData token)) (\<lambda>_.
              logger LogInfo (TokenRefreshed userId)))))))"

text \<open>The controller method \<^verbatim>\<open>getProfile\<close>; the model method of that name is a collaborator.\<close>

definition getProfile_ctl :: "'w collaborators \<Rightarrow> request \<Rightarrow> ('w, unit) prog" where
  "getProfile_ctl env req =
     andThen (call (GetProfile (ctx_userId req)) (getProfile env (ctx_userId req))) (\<lambda>profile.
     success ProfileOk (ProfileData profile))"

text \<open>
  In \<^verbatim>\<open>uploadAvatar\<close> the first \<^verbatim>\<open>catch\<close> returns; the second one does not, so the
  statements after it run on both paths, with \<^verbatim>\<open>fileName\<close> still undefined after a
  failure.
\<close>

definition uploadAvatar :: "'w collaborators \<Rightarrow> request \<Rightarrow> ('w, unit) prog" where
  "uploadAvatar env req =
     (let userId = ctx_userId req in
      andThen (logger LogInfo (AvatarUploading userId)) (\<lambda>_.
      andThen (try_catch
                 (andThen (call GetFileStream (getFileStream env)) (\<lambda>stream. ret (Inr stream)))
                 (\<lambda>err. ret (Inl err))) (\<lambda>got.
      case got of
        Inl err \<Rightarrow> fail (CustomErrorCodeMessage uploadError err)
      | Inr stream \<Rightarrow>
          andThen
            (try_catch
               (andThen (call (ToArray stream) (toArray env stream)) (\<lambda>parts.
                let buf = concat parts in
                andThen (call (SaveAvatar buf userId) (saveAvatar env buf userId)) (\<lambda>info.
                andThen (logger LogInfo (AvatarSaved (fileName info))) (\<lambda>_.
                ret (fileName info)))))
               (\<lambda>err.
                andThen (call (SendToWormhole stream) (sendToWormhole env stream)) (\<lambda>_.
                andThen (fail (CustomError uploadError)) (\<lambda>_.
                andThen (logger LogError (TheError err)) (\<lambda>_.
                ret JUndefined)))))
            (\<lambda>fileName.
             let avatarUrl = ''/public/uploads/avatar/'' @ template_string fileName in
             andThen (call (UpdateAvatar avatarUrl userId) (updateAvatar env avatarUrl userId)) (\<lambda>_.
             andThen (success ModifyOk (UrlData avatarUrl)) (\<lambda>_.
             logger LogInfo AvatarChanged))))))"

definition exitLogin :: "'w collaborators \<Rightarrow> request \<Rightarrow> ('w, unit) prog" where
  "exitLogin env req =
     andThen (call (ClearToken (ctx_userId req)) (clearToken env (ctx_userId req))) (\<lambda>_.
     andThen (success ExitLoginOk NoData) (\<lambda>_.
     logger LogInfo (LoggedOut (ctx_userId req))))"

section \<open>Observing a run\<close>

text \<open>A request starts on a world with an empty trace.\<close>

definition run :: "('w, 'a) prog \<Rightarrow> 'w \<Rightarrow> (js_error + 'a) \<times> 'w \<times> event list" where
  "run p w = p (w, [])"

definition outcome :: "(js_error + 'a) \<times> 'w \<times> event list \<Rightarrow> js_error + 'a" where
  "outcome r = fst r"

definition world_of :: "(js_error + 'a) \<times> 'w \<times> event list \<Rightarrow> 'w" where
  "world_of r = fst (snd r)"

definition trace_of :: "(js_error + 'a) \<times> 'w \<times> event list \<Rightarrow> event list" where
  "trace_of r = snd (snd r)"

fun responses :: "event list \<Rightarrow> response list" where
  "responses [] = []"
| "responses (Respond r # evs) = r # responses evs"
| "responses (_ # evs) = responses evs"

fun calls :: "event list \<Rightarrow> collaborator_call list" where
  "calls [] = []"
| "calls (Call c # evs) = c # calls evs"
| "calls (_ # evs) = calls evs"

fun logs :: "event list \<Rightarrow> (log_level \<times> log_entry) list" where
  "logs [] = []"
| "logs (Log l x # evs) = (l, x) # logs evs"
| "logs (_ # evs) = logs evs"

text \<open>The user ids for which a token was requested from the token service.\<close>

fun tokens_issued :: "collaborator_call list \<Rightarrow> int list" where
  "tokens_issued [] = []"
| "tokens_issued (GenerateToken uid # cs) = uid # tokens_issued cs"
| "tokens_issued (_ # cs) = tokens_issued cs"

text \<open>The phone and password pairs handed to the user-creation service.\<close>

fun users_created :: "collaborator_call list \<Rightarrow> (jsval \<times> jsval) list" where
  "users_created [] = []"
| "users_created (CreateUser p pw # cs) = (p, pw) # users_created cs"
| "users_created (_ # cs) = users_created cs"

text \<open>The avatar paths written to user records: path and user id.\<close>

fun avatar_updates :: "collaborator_call list \<Rightarrow> (string \<times> int) list" where
  "avatar_updates [] = []"
| "avatar_updates (UpdateAvatar url uid # cs) = (url, uid) # avatar_updates cs"
| "avatar_updates (_ # cs) = avatar_updates cs"

section \<open>An in-memory world\<close>

text \<open>
  A small implementation of the collaborators, on which the controller can be run: the
  users table, the chunks of the upload not read yet. Passwords are stored as they are,
  the phone code is always 123456, the clock stands at 1000, the SMS gateway is down for
  one number, and the avatar store takes at most four bytes.
\<close>

record world =
  users :: "user list"
  upload :: "string list"

definition mem_validate :: "rule_set \<Rightarrow> validate_target \<Rightarrow> js_error option" where
  "mem_validate rules t =
     (let p = (case t of Query None \<Rightarrow> JUndefined | Query (Some q) \<Rightarrow> query_phone q
                       | Body b \<Rightarrow> phone b)
      in case p of
           JStr s \<Rightarrow> if length s = 11 then None else Some (Error ''Validation Failed'')
         | _ \<Rightarrow> Some (Error ''Validation Failed''))"

definition mem_sendPhoneCode :: "jsval \<Rightarrow> (world, unit) action" where
  "mem_sendPhoneCode p w =
     (if p = JStr ''13800000000'' then (Inl (Error ''sms gateway unavailable''), w)
      else (Inr (), w))"

definition mem_checkPhoneCode :: "jsval \<Rightarrow> jsval \<Rightarrow> (world, bool) action" where
  "mem_checkPhoneCode p c w = (Inr (c = JStr ''123456''), w)"

definition mem_findByPhone :: "jsval \<Rightarrow> (world, user option) action" where
  "mem_findByPhone p w = (Inr (find (\<lambda>u. user_phone u = p) (users w)), w)"

definition mem_createUser :: "jsval \<Rightarrow> jsval \<Rightarrow> (world, user) action" where
  "mem_createUser p pw w =
     (let u = \<lparr>user_id = int (length (users w)) + 1, user_phone = p, user_password = pw,
                user_pwd_key = JStr ''key'', user_nickname = p, user_avatar = JNull,
                user_token = JNull, user_token_expires_in = JNull\<rparr>
      in (Inr u, w\<lparr>users := users w @ [u]\<rparr>))"

definition mem_checkPassword :: "user \<Rightarrow> jsval \<Rightarrow> (world, bool) action" where
  "mem_checkPassword u pw w = (Inr (user_password u = pw), w)"

definition mem_generateToken :: "int \<Rightarrow> (world, jsval) action" where
  "mem_generateToken uid w =
     (let t = JStr (''token-'' @ template_string (JNum uid)) in
      (Inr t,
       w\<lparr>users := map (\<lambda>u. if user_id u = uid
                              then u\<lparr>user_token := t, user_token_expires_in := JNum 2000\<rparr>
                              else u) (users w)\<rparr>))"

definition mem_secretPassword :: "jsval \<Rightarrow> (world, jsval \<times> jsval) action" where
  "mem_secretPassword pw w = (Inr (JStr ''salt'', pw), w)"

definition mem_save :: "user \<Rightarrow> (world, unit) action" where
  "mem_save u w =
     (Inr (), w\<lparr>users := map (\<lambda>v. if user_id v = user_id u then u else v) (users w)\<rparr>)"

definition mem_findOneByToken :: "jsval \<Rightarrow> (world, user option) action" where
  "mem_findOneByToken t w = (Inr (find (\<lambda>u. user_token u = t) (users w)), w)"

definition mem_isExpired :: "jsval \<Rightarrow> (world, bool) action" where
  "mem_isExpired ts w = (Inr (case ts of JNum n \<Rightarrow> n < 1000 | _ \<Rightarrow> True), w)"

definition mem_getProfile :: "int \<Rightarrow> (world, jsval) action" where
  "mem_getProfile uid w =
     (Inr (case find (\<lambda>u. user_id u = uid) (users w) of
             None \<Rightarrow> JNull | Some u \<Rightarrow> user_nickname u), w)"

definition mem_getFileStream :: "(world, file_stream) action" where
  "mem_getFileStream w = (Inr (FileStream 0), w)"

definition mem_toArray :: "file_stream \<Rightarrow> (world, string list) action" where
  "mem_toArray s w = (Inr (upload w), w\<lparr>upload := []\<rparr>)"

definition mem_saveAvatar :: "string \<Rightarrow> int \<Rightarrow> (world, avatar_info) action" where
  "mem_saveAvatar buf uid w =
     (if length buf > 4 then (Inl (Error ''file too large''), w)
      else (Inr \<lparr>fileName = JStr (template_string (JNum uid) @ ''.png'')\<rparr>, w))"

definition mem_sendToWormhole :: "file_stream \<Rightarrow> (world, unit) action" where
  "mem_sendToWormhole s w = (Inr (), w\<lparr>upload := []\<rparr>)"

definition mem_updateAvatar :: "string \<Rightarrow> int \<Rightarrow> (world, unit) action" where
  "mem_updateAvatar url uid w =
     (Inr (), w\<lparr>users := map (\<lambda>u. if user_id u = uid then u\<lparr>user_avatar := JStr url\<rparr> else u)
                            (users w)\<rparr>)"

definition mem_clearToken :: "int \<Rightarrow> (world, unit) action" where
  "mem_clearToken uid w =
     (Inr (), w\<lparr>users := map (\<lambda>u. if user_id u = uid then u\<lparr>user_token := JNull\<rparr> else u)
                            (users w)\<rparr>)"

definition mem_env :: "world collaborators" where
  "mem_env =
     \<lparr>validate = mem_validate, sendPhoneCode = mem_sendPhoneCode,
      checkPhoneCode = mem_checkPhoneCode, findByPhone = mem_findByPhone,
      createUser = mem_createUser, checkPassword = mem_checkPassword,
      generateToken = mem_generateToken, secretPassword = mem_secretPassword,
      save = mem_save, findOneByToken = mem_findOneByToken, isExpired = mem_isExpired,
      getProfile = mem_getProfile, getFileStream = mem_getFileStream,
      toArray = mem_toArray, saveAvatar = mem_saveAvatar,
      sendToWormhole = mem_sendToWormhole, updateAvatar = mem_updateAvatar,
      clearToken = mem_clearToken\<rparr>"

text \<open>One registered user, with a live token, and a six-byte upload waiting.\<close>

definition alice :: user where
  "alice =
     \<lparr>user_id = 1, user_phone = JStr ''13900000001'', user_password = JStr ''p1'',
      user_pwd_key = JStr ''key'', user_nickname = JStr ''alice'',
      user_avatar = JStr ''/public/uploads/avatar/1.png'', user_token = JStr ''live'',
      user_token_expires_in = JNum 2000\<rparr>"

definition world0 :: world where
  "world0 = \<lparr>users = [alice], upload = [''abc'', ''def'']\<rparr>"

definition mk_body :: "string \<Rightarrow> jsval \<Rightarrow> jsval \<Rightarrow> jsval \<Rightarrow> request" where
  "mk_body p c pw rpw =
     \<lparr>ctx_query = Some \<lparr>query_phone = JUndefined, query_token = JUndefined\<rparr>,
      request_body = \<lparr>phone = JStr p, code = c, password = pw, rePassword = rpw\<rparr>,
      ctx_userId = 0\<rparr>"

definition mk_query :: "jsval \<Rightarrow> jsval \<Rightarrow> int \<Rightarrow> request" where
  "mk_query p t uid =
     \<lparr>ctx_query = Some \<lparr>query_phone = p, query_token = t\<rparr>,
      request_body = \<lparr>phone = JUndefined, code = JUndefined, password = JUndefined,
                      rePassword = JUndefined\<rparr>,
      ctx_userId = uid\<rparr>"

text \<open>Requests on that world.\<close>

definition login_ok_req :: request where
  "login_ok_req = mk_body ''13900000001'' JUndefined (JStr ''p1'') JUndefined"

definition login_bad_req :: request where
  "login_bad_req = mk_body ''13900000001'' JUndefined (JStr ''p2'') JUndefined"

definition login_bare_req :: request where
  "login_bare_req = mk_body ''13900000001'' (JNum 0) (JStr []) JUndefined"

definition register_req :: request where
  "register_req = mk_body ''13800000000'' (JStr ''123456'') (JStr ''p1'') (JStr ''p1'')"

definition register_mismatch_req :: request where
  "register_mismatch_req = mk_body ''13800000000'' (JStr ''123456'') (JStr ''p1'') (JStr ''p2'')"

definition reset_req :: request where
  "reset_req = mk_body ''13900000001'' (JStr ''123456'') (JStr ''p9'') (JStr ''p9'')"

definition reset_badcode_req :: request where
  "reset_badcode_req = mk_body ''13900000001'' (JStr ''000000'') (JStr ''p9'') (JStr ''p9'')"

definition reset_unknown_req :: request where
  "reset_unknown_req = mk_body ''13800000000'' (JStr ''123456'') (JStr ''p9'') (JStr ''p9'')"

definition refresh_live_req :: request where
  "refresh_live_req = mk_query JUndefined (JStr ''live'') 0"

definition refresh_unknown_req :: request where
  "refresh_unknown_req = mk_query JUndefined (JStr ''nobody'') 0"

definition refresh_none_req :: request where
  "refresh_none_req = mk_query JUndefined JUndefined 0"

definition sms_req :: request where
  "sms_req = mk_query (JStr ''13800000000'') JUndefined 0"

definition invalid_req :: request where
  "invalid_req = mk_query (JStr ''123'') JUndefined 0"

definition upload_req :: request where
  "upload_req = mk_query JUndefined JUndefined 1"

text \<open>The user that registering with \<open>register_req\<close> creates, and the world after it.\<close>

definition bob :: user where
  "bob =
     \<lparr>user_id = 2, user_phone = JStr ''13800000000'', user_password = JStr ''p1'',
      user_pwd_key = JStr ''key'', user_nickname = JStr ''13800000000'',
      user_avatar = JNull, user_token = JNull, user_token_expires_in = JNull\<rparr>"

definition world1 :: world where
  "world1 = \<lparr>users = [alice, bob], upload = [''abc'', ''def'']\<rparr>"

text \<open>The same world after the token of its user has run out.\<close>

definition world_stale :: world where
  "world_stale = \<lparr>users = [alice\<lparr>user_token_expires_in := JNum 500\<rparr>], upload = []\<rparr>"

lemmas prog_defs =
  ret_def throw_def andThen_def try_catch_def emit_def call_def logger_def success_def
  fail_def run_def outcome_def world_of_def trace_of_def

lemmas mem_defs =
  mem_env_def mem_validate_def mem_sendPhoneCode_def mem_checkPhoneCode_def
  mem_findByPhone_def mem_createUser_def mem_checkPassword_def mem_generateToken_def
  mem_secretPassword_def mem_save_def mem_findOneByToken_def mem_isExpired_def
  mem_getProfile_def mem_getFileStream_def mem_toArray_def mem_saveAvatar_def
  mem_sendToWormhole_def mem_updateAvatar_def mem_clearToken_def
  alice_def bob_def world0_def world1_def world_stale_def mk_body_def mk_query_def digit_char_def Let_def

lemmas req_defs =
  login_ok_req_def login_bad_req_def login_bare_req_def register_req_def
  register_mismatch_req_def reset_req_def reset_badcode_req_def reset_unknown_req_def
  refresh_live_req_def refresh_unknown_req_def refresh_none_req_def sms_req_def
  invalid_req_def upload_req_def

section \<open>Login\<close>

text \<open>
  C1. A login request that passes form validation, names a registered phone and carries a
  (truthy) password: the password service is asked once; when it accepts and the token
  service returns a token, exactly one token is requested, for the id of the user found,
  and the only response is the success carrying that token; when it rejects, the only
  response is the \<open>passwordError\<close> failure and no token is requested.
\<close>

theorem login_with_password:
  assumes "validate env loginForm (Body (request_body req)) = None"
    and "findByPhone env (phone (request_body req)) w = (Inr (Some u), w1)"
    and "truthy (password (request_body req))"
    and "checkPassword env u (password (request_body req)) w1 = (Inr verified, w2)"
  shows "(verified \<and> generateToken env (user_id u) w2 = (Inr token, w3) \<longrightarrow>
            outcome (run (login env req) w) = Inr ()
          \<and> responses (trace_of (run (login env req) w)) = [Success LoginOk (TokenData token)]
          \<and> tokens_issued (calls (trace_of (run (login env req) w))) = [user_id u]
          \<and> world_of (run (login env req) w) = w3)
       \<and> (\<not> verified \<longrightarrow>
            outcome (run (login env req) w) = Inr ()
          \<and> responses (trace_of (run (login env req) w))
              = [Fail (CustomError login_passwordError)]
          \<and> tokens_issued (calls (trace_of (run (login env req) w))) = []
          \<and> world_of (run (login env req) w) = w2)"
  using assms by (simp add: login_def prog_defs Let_def)

theorem login_with_password_witness:
  "responses (trace_of (run (login mem_env login_ok_req) world0))
     = [Success LoginOk (TokenData (JStr ''token-1''))]
 \<and> tokens_issued (calls (trace_of (run (login mem_env login_ok_req) world0))) = [1]
 \<and> responses (trace_of (run (login mem_env login_bad_req) world0))
     = [Fail (CustomError login_passwordError)]
 \<and> tokens_issued (calls (trace_of (run (login mem_env login_bad_req) world0))) = []"
proof -
  have v: "validate mem_env loginForm (Body (request_body login_ok_req)) = None"
          "validate mem_env loginForm (Body (request_body login_bad_req)) = None"
    by (simp_all add: mem_defs req_defs)
  have f: "findByPhone mem_env (phone (request_body login_ok_req)) world0
             = (Inr (Some alice), world0)"
          "findByPhone mem_env (phone (request_body login_bad_req)) world0
             = (Inr (Some alice), world0)"
    by (simp_all add: mem_defs req_defs)
  have t: "truthy (password (request_body login_ok_req))"
          "truthy (password (request_body login_bad_req))"
    by (simp_all add: mem_defs req_defs)
  have c: "checkPassword mem_env alice (password (request_body login_ok_req)) world0
             = (Inr True, world0)"
          "checkPassword mem_env alice (password (request_body login_bad_req)) world0
             = (Inr False, world0)"
    by (simp_all add: mem_defs req_defs)
  have g: "generateToken mem_env (user_id alice) world0
             = (Inr (JStr ''token-1''), snd (mem_generateToken 1 world0))"
    by (simp add: mem_defs)
  have i: "user_id alice = 1"
    by (simp add: alice_def)
  show ?thesis
    using login_with_password [OF v(1) f(1) t(1) c(1), of "JStr ''token-1''" "snd (mem_generateToken 1 world0)"]
          login_with_password [OF v(2) f(2) t(2) c(2)] g i
    by simp
qed

text \<open>
  C9. A login request that passes form validation and names a registered phone, with a
  falsy password and a falsy code: the lookup of the user is followed at once by the token
  request for that user's id (neither the password nor the phone code is checked), and
  the token the service returns is sent back with success.
\<close>

theorem login_without_credentials:
  assumes "validate env loginForm (Body (request_body req)) = None"
    and "findByPhone env (phone (request_body req)) w = (Inr (Some u), w1)"
    and "\<not> truthy (password (request_body req))"
    and "\<not> truthy (code (request_body req))"
    and "generateToken env (user_id u) w1 = (Inr token, w2)"
  shows "outcome (run (login env req) w) = Inr ()
       \<and> calls (trace_of (run (login env req) w))
           = [FindByPhone (phone (request_body req)), GenerateToken (user_id u)]
       \<and> responses (trace_of (run (login env req) w)) = [Success LoginOk (TokenData token)]
       \<and> world_of (run (login env req) w) = w2"
  using assms by (simp add: login_def prog_defs Let_def)

theorem login_without_credentials_witness:
  "\<not> truthy (password (request_body login_bare_req))
 \<and> \<not> truthy (code (request_body login_bare_req))
 \<and> calls (trace_of (run (login mem_env login_bare_req) world0))
     = [FindByPhone (JStr ''13900000001''), GenerateToken 1]
 \<and> responses (trace_of (run (login mem_env login_bare_req) world0))
     = [Success LoginOk (TokenData (JStr ''token-1''))]"
proof -
  have v: "validate mem_env loginForm (Body (request_body login_bare_req)) = None"
    by (simp add: mem_defs req_defs)
  have f: "findByPhone mem_env (phone (request_body login_bare_req)) world0
             = (Inr (Some alice), world0)"
    by (simp add: mem_defs req_defs)
  have p: "\<not> truthy (password (request_body login_bare_req))"
    by (simp add: mem_defs req_defs)
  have c: "\<not> truthy (code (request_body login_bare_req))"
    by (simp add: mem_defs req_defs)
  have g: "generateToken mem_env (user_id alice) world0
             = (Inr (JStr ''token-1''), snd (mem_generateToken 1 world0))"
    by (simp add: mem_defs)
  have i: "user_id alice = 1" "phone (request_body login_bare_req) = JStr ''13900000001''"
    by (simp_all add: mem_defs req_defs)
  show ?thesis
    using login_without_credentials [OF v f p c g] p c i by simp
qed

section \<open>Registration\<close>

text \<open>
  C5. A registration request whose password and confirmation differ: whether or not the
  validator accepts the form, the only response is the \<open>invalidParam\<close> failure, no
  collaborator is called (no phone-code check, no lookup, no creation), and the world is
  left as it was.
\<close>

theorem register_password_mismatch:
  assumes "strict_neq (password (request_body req)) (rePassword (request_body req))"
  shows "outcome (run (register env req) w) = Inr ()
       \<and> responses (trace_of (run (register env req) w)) = [Fail (CustomError invalidParam)]
       \<and> calls (trace_of (run (register env req) w)) = []
       \<and> world_of (run (register env req) w) = w"
  using assms by (simp add: register_def prog_defs split: option.split)

theorem register_password_mismatch_witness:
  "strict_neq (password (request_body register_mismatch_req))
              (rePassword (request_body register_mismatch_req))
 \<and> outcome (run (register mem_env register_mismatch_req) world0) = Inr ()
 \<and> responses (trace_of (run (register mem_env register_mismatch_req) world0))
     = [Fail (CustomError invalidParam)]
 \<and> calls (trace_of (run (register mem_env register_mismatch_req) world0)) = []
 \<and> world_of (run (register mem_env register_mismatch_req) world0) = world0"
proof -
  have h: "strict_neq (password (request_body register_mismatch_req))
                      (rePassword (request_body register_mismatch_req))"
    by (simp add: strict_neq_def req_defs mk_body_def)
  show ?thesis
    using h register_password_mismatch [OF h, of mem_env world0] by simp
qed

text \<open>
  C4. A registration request that passes validation, with equal passwords and a phone code
  the code service accepts: when the lookup finds a user for the phone, the only response
  is the \<open>registered\<close> failure, the creation service is not called and the world is as
  the lookup left it; when it finds none and the creation service returns a user, the
  response is the success with that user's id and nickname; and a user is created only
  when the lookup found none.
\<close>

theorem register_existing_phone:
  assumes "validate env registerForm (Body (request_body req)) = None"
    and "\<not> strict_neq (password (request_body req)) (rePassword (request_body req))"
    and "checkPhoneCode env (phone (request_body req)) (code (request_body req)) w
           = (Inr True, wa)"
  shows "(findByPhone env (phone (request_body req)) wa = (Inr (Some u), wb) \<longrightarrow>
            outcome (run (register env req) w) = Inr ()
          \<and> responses (trace_of (run (register env req) w))
              = [Fail (CustomError register_registered)]
          \<and> users_created (calls (trace_of (run (register env req) w))) = []
          \<and> world_of (run (register env req) w) = wb)
       \<and> (findByPhone env (phone (request_body req)) wa = (Inr None, wb)
          \<and> createUser env (phone (request_body req)) (password (request_body req)) wb
              = (Inr u', wc) \<longrightarrow>
            outcome (run (register env req) w) = Inr ()
          \<and> responses (trace_of (run (register env req) w))
              = [Success CreateUserOk (IdNickname (user_id u') (user_nickname u'))]
          \<and> users_created (calls (trace_of (run (register env req) w)))
              = [(phone (request_body req), password (request_body req))]
          \<and> world_of (run (register env req) w) = wc)
       \<and> (users_created (calls (trace_of (run (register env req) w))) \<noteq> [] \<longrightarrow>
            (\<exists>w'. findByPhone env (phone (request_body req)) wa = (Inr None, w')))"
proof (intro conjI impI)
  assume "users_created (calls (trace_of (run (register env req) w))) \<noteq> []"
  with assms show "\<exists>w'. findByPhone env (phone (request_body req)) wa = (Inr None, w')"
    by (cases "findByPhone env (phone (request_body req)) wa")
       (auto simp: register_def prog_defs Let_def split: sum.splits option.splits prod.splits)
qed (use assms in \<open>simp_all add: register_def prog_defs Let_def\<close>)

theorem register_existing_phone_witness:
  "responses (trace_of (run (register mem_env register_req) world0))
     = [Success CreateUserOk (IdNickname 2 (JStr ''13800000000''))]
 \<and> users_created (calls (trace_of (run (register mem_env register_req) world0)))
     = [(JStr ''13800000000'', JStr ''p1'')]
 \<and> world_of (run (register mem_env register_req) world0) = world1
 \<and> responses (trace_of (run (register mem_env register_req) world1))
     = [Fail (CustomError register_registered)]
 \<and> users_created (calls (trace_of (run (register mem_env register_req) world1))) = []
 \<and> world_of (run (register mem_env register_req) world1) = world1"
proof -
  have v: "validate mem_env registerForm (Body (request_body register_req)) = None"
    by (simp add: mem_defs req_defs)
  have e: "\<not> strict_neq (password (request_body register_req))
                          (rePassword (request_body register_req))"
    by (simp add: strict_neq_def mem_defs req_defs)
  have c0: "checkPhoneCode mem_env (phone (request_body register_req))
              (code (request_body register_req)) world0 = (Inr True, world0)"
    by (simp add: mem_defs req_defs)
  have c1: "checkPhoneCode mem_env (phone (request_body register_req))
              (code (request_body register_req)) world1 = (Inr True, world1)"
    by (simp add: mem_defs req_defs)
  have f0: "findByPhone mem_env (phone (request_body register_req)) world0 = (Inr None, world0)"
    by (simp add: mem_defs req_defs)
  have f1: "findByPhone mem_env (phone (request_body register_req)) world1
              = (Inr (Some bob), world1)"
    by (simp add: mem_defs req_defs)
  have n: "createUser mem_env (phone (request_body register_req))
             (password (request_body register_req)) world0 = (Inr bob, world1)"
    by (simp add: mem_defs req_defs)
  have b: "user_id bob = 2" "user_nickname bob = JStr ''13800000000''"
          "phone (request_body register_req) = JStr ''13800000000''"
          "password (request_body register_req) = JStr ''p1''"
    by (simp_all add: mem_defs req_defs)
  show ?thesis
    using register_existing_phone [OF v e c0, where wb = world0 and u = bob and u' = bob and wc = world1]
          register_existing_phone [OF v e c1, where wb = world1 and u = bob and u' = bob and wc = world1] f0 f1 n b
    by simp
qed

section \<open>Password reset\<close>

text \<open>
  C6. A password-reset request that passes the registration-form validation, with equal
  passwords: when the lookup finds no user for the phone, the only response is the
  \<open>unRegistered\<close> failure; when it finds one and the code service rejects the code, the
  only response is the phone-code failure and nothing is saved; when the code is accepted,
  the helper's secret and signed password are written into the fields \<open>pwd_key\<close> and
  \<open>password\<close> of the record found, that record is saved, and the response is success.
\<close>

theorem resetPassword_cases:
  assumes "validate env registerForm (Body (request_body req)) = None"
    and "\<not> strict_neq (password (request_body req)) (rePassword (request_body req))"
  shows "(findByPhone env (phone (request_body req)) w = (Inr None, wa) \<longrightarrow>
            outcome (run (resetPassword env req) w) = Inr ()
          \<and> responses (trace_of (run (resetPassword env req) w))
              = [Fail (CustomError login_unRegistered)]
          \<and> calls (trace_of (run (resetPassword env req) w))
              = [FindByPhone (phone (request_body req))]
          \<and> world_of (run (resetPassword env req) w) = wa)
       \<and> (findByPhone env (phone (request_body req)) w = (Inr (Some u), wa)
          \<and> checkPhoneCode env (phone (request_body req)) (code (request_body req)) wa
              = (Inr False, wb) \<longrightarrow>
            outcome (run (resetPassword env req) w) = Inr ()
          \<and> responses (trace_of (run (resetPassword env req) w))
              = [Fail (CustomError phoneCode_errorCode)]
          \<and> calls (trace_of (run (resetPassword env req) w))
              = [FindByPhone (phone (request_body req)),
                 CheckPhoneCode (phone (request_body req)) (code (request_body req))]
          \<and> world_of (run (resetPassword env req) w) = wb)
       \<and> (findByPhone env (phone (request_body req)) w = (Inr (Some u), wa)
          \<and> checkPhoneCode env (phone (request_body req)) (code (request_body req)) wa
              = (Inr True, wb)
          \<and> secretPassword env (password (request_body req)) wb = (Inr (secret, signedPwd), wc)
          \<and> save env (u\<lparr>user_pwd_key := secret, user_password := signedPwd\<rparr>) wc
              = (Inr (), wd) \<longrightarrow>
            outcome (run (resetPassword env req) w) = Inr ()
          \<and> responses (trace_of (run (resetPassword env req) w)) = [Success NoMessage NoData]
          \<and> calls (trace_of (run (resetPassword env req) w))
              = [FindByPhone (phone (request_body req)),
                 CheckPhoneCode (phone (request_body req)) (code (request_body req)),
                 SecretPassword (password (request_body req)),
                 Save (u\<lparr>user_pwd_key := secret, user_password := signedPwd\<rparr>)]
          \<and> world_of (run (resetPassword env req) w) = wd)"
  using assms by (simp add: resetPassword_def prog_defs Let_def)

theorem resetPassword_cases_witness:
  "responses (trace_of (run (resetPassword mem_env reset_unknown_req) world0))
     = [Fail (CustomError login_unRegistered)]
 \<and> responses (trace_of (run (resetPassword mem_env reset_badcode_req) world0))
     = [Fail (CustomError phoneCode_errorCode)]
 \<and> world_of (run (resetPassword mem_env reset_badcode_req) world0) = world0
 \<and> responses (trace_of (run (resetPassword mem_env reset_req) world0))
     = [Success NoMessage NoData]
 \<and> users (world_of (run (resetPassword mem_env reset_req) world0))
     = [alice\<lparr>user_pwd_key := JStr ''salt'', user_password := JStr ''p9''\<rparr>]"
proof -
  have v: "validate mem_env registerForm (Body (request_body reset_unknown_req)) = None"
          "validate mem_env registerForm (Body (request_body reset_badcode_req)) = None"
          "validate mem_env registerForm (Body (request_body reset_req)) = None"
    by (simp_all add: mem_defs req_defs)
  have e: "\<not> strict_neq (password (request_body reset_unknown_req))
                          (rePassword (request_body reset_unknown_req))"
          "\<not> strict_neq (password (request_body reset_badcode_req))
                          (rePassword (request_body reset_badcode_req))"
          "\<not> strict_neq (password (request_body reset_req))
                          (rePassword (request_body reset_req))"
    by (simp_all add: strict_neq_def mem_defs req_defs)
  have f: "findByPhone mem_env (phone (request_body reset_unknown_req)) world0
             = (Inr None, world0)"
          "findByPhone mem_env (phone (request_body reset_badcode_req)) world0
             = (Inr (Some alice), world0)"
          "findByPhone mem_env (phone (request_body reset_req)) world0
             = (Inr (Some alice), world0)"
    by (simp_all add: mem_defs req_defs)
  have c: "checkPhoneCode mem_env (phone (request_body reset_badcode_req))
             (code (request_body reset_badcode_req)) world0 = (Inr False, world0)"
          "checkPhoneCode mem_env (phone (request_body reset_req))
             (code (request_body reset_req)) world0 = (Inr True, world0)"
    by (simp_all add: mem_defs req_defs)
  have s: "secretPassword mem_env (password (request_body reset_req)) world0
             = (Inr (JStr ''salt'', JStr ''p9''), world0)"
    by (simp add: mem_defs req_defs)
  have d: "save mem_env (alice\<lparr>user_pwd_key := JStr ''salt'', user_password := JStr ''p9''\<rparr>)
             world0
             = (Inr (), world0\<lparr>users :=
                  [alice\<lparr>user_pwd_key := JStr ''salt'', user_password := JStr ''p9''\<rparr>]\<rparr>)"
    by (simp add: mem_defs)
  show ?thesis
    using resetPassword_cases [OF v(1) e(1), where w = world0 and wa = world0 and u = alice
                                 and wb = world0 and secret = JNull and signedPwd = JNull
                                 and wc = world0 and wd = world0]
          resetPassword_cases [OF v(2) e(2), where w = world0 and wa = world0 and u = alice
                                 and wb = world0 and secret = JNull and signedPwd = JNull
                                 and wc = world0 and wd = world0]
          resetPassword_cases [OF v(3) e(3), where w = world0 and wa = world0 and u = alice
                                 and wb = world0 and secret = "JStr ''salt''"
                                 and signedPwd = "JStr ''p9''" and wc = world0
                                 and wd = "world0\<lparr>users :=
                  [alice\<lparr>user_pwd_key := JStr ''salt'', user_password := JStr ''p9''\<rparr>]\<rparr>"]
          f c s d
    by simp
qed

section \<open>Token refresh\<close>

text \<open>
  C2. A token-refresh request with a (truthy) token: when the lookup by token finds no
  user, the only response is the token-error failure; when it finds one whose expiry the
  helper reports as passed, the only response is the \<open>expired\<close> failure; in both cases
  no token is requested. When the user's token has not expired and the token service
  returns a token, one token is requested, for that user's id, and sent back with success.
  In every run, a token is requested only if the lookup found a user and the helper
  reported the expiry as not passed.
\<close>

theorem refreshToken_cases:
  "(truthy (query_token_of req)
    \<and> findOneByToken env (query_token_of req) w = (Inr None, wa) \<longrightarrow>
      outcome (run (refreshToken env req) w) = Inr ()
    \<and> responses (trace_of (run (refreshToken env req) w)) = [Fail (CustomError token_error)]
    \<and> tokens_issued (calls (trace_of (run (refreshToken env req) w))) = [])
 \<and> (truthy (query_token_of req)
    \<and> findOneByToken env (query_token_of req) w = (Inr (Some u), wa)
    \<and> isExpired env (user_token_expires_in u) wa = (Inr True, wb) \<longrightarrow>
      outcome (run (refreshToken env req) w) = Inr ()
    \<and> responses (trace_of (run (refreshToken env req) w)) = [Fail (CustomError token_expired)]
    \<and> tokens_issued (calls (trace_of (run (refreshToken env req) w))) = [])
 \<and> (truthy (query_token_of req)
    \<and> findOneByToken env (query_token_of req) w = (Inr (Some u), wa)
    \<and> isExpired env (user_token_expires_in u) wa = (Inr False, wb)
    \<and> generateToken env (user_id u) wb = (Inr token, wc) \<longrightarrow>
      outcome (run (refreshToken env req) w) = Inr ()
    \<and> responses (trace_of (run (refreshToken env req) w)) = [Success RefreshOk (TokenData token)]
    \<and> tokens_issued (calls (trace_of (run (refreshToken env req) w))) = [user_id u]
    \<and> world_of (run (refreshToken env req) w) = wc)
 \<and> (tokens_issued (calls (trace_of (run (refreshToken env req) w))) \<noteq> [] \<longrightarrow>
      (\<exists>v wa' wb'. findOneByToken env (query_token_of req) w = (Inr (Some v), wa')
                 \<and> isExpired env (user_token_expires_in v) wa' = (Inr False, wb')
                 \<and> tokens_issued (calls (trace_of (run (refreshToken env req) w)))
                     = [user_id v]))"
proof (intro conjI impI)
  assume issued: "tokens_issued (calls (trace_of (run (refreshToken env req) w))) \<noteq> []"
  show "\<exists>v wa' wb'. findOneByToken env (query_token_of req) w = (Inr (Some v), wa')
                 \<and> isExpired env (user_token_expires_in v) wa' = (Inr False, wb')
                 \<and> tokens_issued (calls (trace_of (run (refreshToken env req) w)))
                     = [user_id v]"
  proof (cases "truthy (query_token_of req)")
    case False
    with issued show ?thesis
      by (simp add: refreshToken_def prog_defs Let_def)
  next
    case True
    obtain r wa' where look: "findOneByToken env (query_token_of req) w = (r, wa')"
      by (cases "findOneByToken env (query_token_of req) w")
    show ?thesis
    proof (cases r)
      case (Inl e)
      with issued True look show ?thesis
        by (simp add: refreshToken_def prog_defs Let_def)
    next
      case (Inr found)
      show ?thesis
      proof (cases found)
        case None
        with issued True look Inr show ?thesis
          by (simp add: refreshToken_def prog_defs Let_def)
      next
        case (Some v)
        obtain x wb' where ex: "isExpired env (user_token_expires_in v) wa' = (x, wb')"
          by (cases "isExpired env (user_token_expires_in v) wa'")
        obtain g wc' where gen: "generateToken env (user_id v) wb' = (g, wc')"
          by (cases "generateToken env (user_id v) wb'")
        from issued True look Inr Some ex gen
        have "x = Inr False \<and> tokens_issued (calls (trace_of (run (refreshToken env req) w)))
                     = [user_id v]"
          by (cases x; cases g) (auto simp: refreshToken_def prog_defs Let_def split: if_splits)
        with look Inr Some ex show ?thesis
          by auto
      qed
    qed
  qed
qed (simp_all add: refreshToken_def prog_defs Let_def)

theorem refreshToken_cases_witness:
  "responses (trace_of (run (refreshToken mem_env refresh_unknown_req) world0))
     = [Fail (CustomError token_error)]
 \<and> tokens_issued (calls (trace_of (run (refreshToken mem_env refresh_unknown_req) world0))) = []
 \<and> responses (trace_of (run (refreshToken mem_env refresh_live_req) world_stale))
     = [Fail (CustomError token_expired)]
 \<and> tokens_issued (calls (trace_of (run (refreshToken mem_env refresh_live_req) world_stale))) = []
 \<and> responses (trace_of (run (refreshToken mem_env refresh_live_req) world0))
     = [Success RefreshOk (TokenData (JStr ''token-1''))]
 \<and> tokens_issued (calls (trace_of (run (refreshToken mem_env refresh_live_req) world0))) = [1]
 \<and> (\<exists>v wa' wb'. findOneByToken mem_env (query_token_of refresh_live_req) world0
                   = (Inr (Some v), wa')
                 \<and> isExpired mem_env (user_token_expires_in v) wa' = (Inr False, wb')
                 \<and> tokens_issued (calls (trace_of (run (refreshToken mem_env refresh_live_req)
                                                  world0))) = [user_id v])"
proof -
  have t: "truthy (query_token_of refresh_unknown_req)" "truthy (query_token_of refresh_live_req)"
    by (simp_all add: query_token_of_def mem_defs req_defs)
  have f: "findOneByToken mem_env (query_token_of refresh_unknown_req) world0
             = (Inr None, world0)"
          "findOneByToken mem_env (query_token_of refresh_live_req) world_stale
             = (Inr (Some (alice\<lparr>user_token_expires_in := JNum 500\<rparr>)), world_stale)"
          "findOneByToken mem_env (query_token_of refresh_live_req) world0
             = (Inr (Some alice), world0)"
    by (simp_all add: query_token_of_def mem_defs req_defs)
  have x: "isExpired mem_env (user_token_expires_in (alice\<lparr>user_token_expires_in := JNum 500\<rparr>))
             world_stale = (Inr True, world_stale)"
          "isExpired mem_env (user_token_expires_in alice) world0 = (Inr False, world0)"
    by (simp_all add: mem_defs)
  have g: "generateToken mem_env (user_id alice) world0
             = (Inr (JStr ''token-1''), snd (mem_generateToken 1 world0))"
    by (simp add: mem_defs)
  have i: "user_id alice = 1"
    by (simp add: alice_def)
  note A = refreshToken_cases [where env = mem_env and req = refresh_unknown_req and w = world0
                                and wa = world0, THEN conjunct1, THEN mp, OF conjI [OF t(1) f(1)]]
  note B = refreshToken_cases [where env = mem_env and req = refresh_live_req and w = world_stale
                                and wa = world_stale
                                and u = "alice\<lparr>user_token_expires_in := JNum 500\<rparr>"
                                and wb = world_stale, THEN conjunct2, THEN conjunct1, THEN mp,
                                OF conjI [OF t(2) conjI [OF f(2) x(1)]]]
  note C = refreshToken_cases [where env = mem_env and req = refresh_live_req and w = world0
                                and wa = world0 and u = alice and wb = world0
                                and token = "JStr ''token-1''"
                                and wc = "snd (mem_generateToken 1 world0)",
                                THEN conjunct2, THEN conjunct2, THEN conjunct1, THEN mp,
                                OF conjI [OF t(2) conjI [OF f(3) conjI [OF x(2) g]]]]
  have ne: "tokens_issued (calls (trace_of (run (refreshToken mem_env refresh_live_req) world0)))
              \<noteq> []"
    using C by simp
  note D = refreshToken_cases [where env = mem_env and req = refresh_live_req and w = world0,
                                THEN conjunct2, THEN conjunct2, THEN conjunct2, THEN mp, OF ne]
  show ?thesis
    using A B C D i by simp
qed

text \<open>
  C10. A token-refresh request without a query, without a token parameter, or with a
  falsy token value: the method answers the token-error failure and does nothing else;
  it queries no collaborator, requests no token and leaves the world as it was.
\<close>

theorem refreshToken_without_token:
  assumes "\<not> truthy (query_token_of req)"
  shows "run (refreshToken env req) w = (Inr (), w, [Respond (Fail (CustomError token_error))])"
  using assms by (simp add: refreshToken_def prog_defs)

theorem refreshToken_without_token_witness:
  "\<not> truthy (query_token_of refresh_none_req)
 \<and> run (refreshToken mem_env refresh_none_req) world0
     = (Inr (), world0, [Respond (Fail (CustomError token_error))])
 \<and> \<not> truthy (query_token_of (refresh_none_req\<lparr>ctx_query := None\<rparr>))
 \<and> run (refreshToken mem_env (refresh_none_req\<lparr>ctx_query := None\<rparr>)) world0
     = (Inr (), world0, [Respond (Fail (CustomError token_error))])"
proof -
  have a: "\<not> truthy (query_token_of refresh_none_req)"
    by (simp add: query_token_of_def mem_defs req_defs)
  have b: "\<not> truthy (query_token_of (refresh_none_req\<lparr>ctx_query := None\<rparr>))"
    by (simp add: query_token_of_def)
  show ?thesis
    using a b refreshToken_without_token [OF a, of mem_env world0]
          refreshToken_without_token [OF b, of mem_env world0]
    by simp
qed

section \<open>Validation failures\<close>

text \<open>
  C7. In each method that validates its input (sending a phone code, registering, logging
  in, resetting the password), when the validator throws, the method ends normally (the
  exception does not leave it), its only response is the \<open>invalidParam\<close> failure, and
  no collaborator is called.
\<close>

theorem validation_failure_caught:
  "(validate env phoneRule (Query (ctx_query req)) = Some e \<longrightarrow>
      outcome (run (getPhoneCode env req) w) = Inr ()
      \<and> responses (trace_of (run (getPhoneCode env req) w)) = [Fail (CustomError invalidParam)]
      \<and> calls (trace_of (run (getPhoneCode env req) w)) = [])
 \<and> (validate env registerForm (Body (request_body req)) = Some e \<longrightarrow>
      outcome (run (register env req) w) = Inr ()
      \<and> responses (trace_of (run (register env req) w)) = [Fail (CustomError invalidParam)]
      \<and> calls (trace_of (run (register env req) w)) = [])
 \<and> (validate env loginForm (Body (request_body req)) = Some e \<longrightarrow>
      outcome (run (login env req) w) = Inr ()
      \<and> responses (trace_of (run (login env req) w)) = [Fail (CustomError invalidParam)]
      \<and> calls (trace_of (run (login env req) w)) = [])
 \<and> (validate env registerForm (Body (request_body req)) = Some e \<longrightarrow>
      outcome (run (resetPassword env req) w) = Inr ()
      \<and> responses (trace_of (run (resetPassword env req) w)) = [Fail (CustomError invalidParam)]
      \<and> calls (trace_of (run (resetPassword env req) w)) = [])"
  by (simp add: getPhoneCode_def register_def login_def resetPassword_def prog_defs)

theorem validation_failure_caught_witness:
  "validate mem_env phoneRule (Query (ctx_query invalid_req)) = Some (Error ''Validation Failed'')
 \<and> validate mem_env registerForm (Body (request_body invalid_req))
     = Some (Error ''Validation Failed'')
 \<and> validate mem_env loginForm (Body (request_body invalid_req))
     = Some (Error ''Validation Failed'')
 \<and> outcome (run (getPhoneCode mem_env invalid_req) world0) = Inr ()
 \<and> responses (trace_of (run (getPhoneCode mem_env invalid_req) world0))
     = [Fail (CustomError invalidParam)]
 \<and> outcome (run (register mem_env invalid_req) world0) = Inr ()
 \<and> responses (trace_of (run (register mem_env invalid_req) world0))
     = [Fail (CustomError invalidParam)]
 \<and> outcome (run (login mem_env invalid_req) world0) = Inr ()
 \<and> responses (trace_of (run (login mem_env invalid_req) world0))
     = [Fail (CustomError invalidParam)]
 \<and> outcome (run (resetPassword mem_env invalid_req) world0) = Inr ()
 \<and> responses (trace_of (run (resetPassword mem_env invalid_req) world0))
     = [Fail (CustomError invalidParam)]"
proof -
  have q: "validate mem_env phoneRule (Query (ctx_query invalid_req))
             = Some (Error ''Validation Failed'')"
    by (simp add: mem_defs req_defs)
  have r: "validate mem_env registerForm (Body (request_body invalid_req))
             = Some (Error ''Validation Failed'')"
    by (simp add: mem_defs req_defs)
  have l: "validate mem_env loginForm (Body (request_body invalid_req))
             = Some (Error ''Validation Failed'')"
    by (simp add: mem_defs req_defs)
  note T = validation_failure_caught [where env = mem_env and req = invalid_req
             and e = "Error ''Validation Failed''" and w = world0]
  note A = T [THEN conjunct1, THEN mp, OF q]
  note B = T [THEN conjunct2, THEN conjunct1, THEN mp, OF r]
  note C = T [THEN conjunct2, THEN conjunct2, THEN conjunct1, THEN mp, OF l]
  note D = T [THEN conjunct2, THEN conjunct2, THEN conjunct2, THEN mp, OF r]
  show ?thesis
    using q r l A B C D by simp
qed

section \<open>Sending a phone code\<close>

text \<open>
  C8, as the code has it. A send-phone-code request that passes validation and carries a
  query: when the SMS service throws an error, the method ends normally, logs that error
  at warn level, and hands that same error, unchanged, to the failure response
  (\<^verbatim>\<open>this.fail(err)\<close>); the controller puts no error of its own catalogue in its
  place.
\<close>

theorem getPhoneCode_service_error:
  assumes "validate env phoneRule (Query (ctx_query req)) = None"
    and "ctx_query req = Some q"
    and "sendPhoneCode env (query_phone q) w = (Inl e, wa)"
  shows "outcome (run (getPhoneCode env req) w) = Inr ()
       \<and> calls (trace_of (run (getPhoneCode env req) w)) = [SendPhoneCode (query_phone q)]
       \<and> logs (trace_of (run (getPhoneCode env req) w)) = [(LogWarn, TheError e)]
       \<and> responses (trace_of (run (getPhoneCode env req) w)) = [Fail e]
       \<and> world_of (run (getPhoneCode env req) w) = wa"
  using assms by (simp add: getPhoneCode_def prog_defs)

theorem getPhoneCode_service_error_witness:
  "sendPhoneCode mem_env (JStr ''13800000000'') world0
     = (Inl (Error ''sms gateway unavailable''), world0)
 \<and> outcome (run (getPhoneCode mem_env sms_req) world0) = Inr ()
 \<and> logs (trace_of (run (getPhoneCode mem_env sms_req) world0))
     = [(LogWarn, TheError (Error ''sms gateway unavailable''))]
 \<and> responses (trace_of (run (getPhoneCode mem_env sms_req) world0))
     = [Fail (Error ''sms gateway unavailable'')]"
proof -
  have v: "validate mem_env phoneRule (Query (ctx_query sms_req)) = None"
    by (simp add: mem_defs req_defs)
  have q: "ctx_query sms_req
             = Some \<lparr>query_phone = JStr ''13800000000'', query_token = JUndefined\<rparr>"
    by (simp add: mem_defs req_defs)
  have s: "sendPhoneCode mem_env
             (query_phone \<lparr>query_phone = JStr ''13800000000'', query_token = JUndefined\<rparr>)
             world0
             = (Inl (Error ''sms gateway unavailable''), world0)"
    by (simp add: mem_defs)
  show ?thesis
    using getPhoneCode_service_error [OF v q s] s by simp
qed

text \<open>
  C8, as the claim states it, fails: on the in-memory world the SMS service throws
  ``sms gateway unavailable'' for the number 13800000000, the request passes validation,
  and the one failure response of the method carries exactly that error of the service,
  not a generic one.
\<close>

theorem getPhoneCode_generic_failure_counterexample:
  "validate mem_env phoneRule (Query (ctx_query sms_req)) = None
 \<and> fst (sendPhoneCode mem_env (JStr ''13800000000'') world0)
     = Inl (Error ''sms gateway unavailable'')
 \<and> responses (trace_of (run (getPhoneCode mem_env sms_req) world0))
     = [Fail (Error ''sms gateway unavailable'')]"
  by (simp add: getPhoneCode_def prog_defs mem_defs req_defs)

section \<open>Avatar upload\<close>

text \<open>
  C3 fails on the code. On the in-memory world the upload of six bytes makes the avatar
  store throw; the method drains the stream and reports the upload error, and then goes
  on: it writes the path ending in ``undefined'' into the avatar field of user 1 and
  reports success.
\<close>

theorem uploadAvatar_store_failure:
  "fst (saveAvatar mem_env ''abcdef'' 1 (world0\<lparr>upload := []\<rparr>)) = Inl (Error ''file too large'')
 \<and> outcome (run (uploadAvatar mem_env upload_req) world0) = Inr ()
 \<and> calls (trace_of (run (uploadAvatar mem_env upload_req) world0))
     = [GetFileStream, ToArray (FileStream 0), SaveAvatar ''abcdef'' 1,
        SendToWormhole (FileStream 0), UpdateAvatar ''/public/uploads/avatar/undefined'' 1]
 \<and> responses (trace_of (run (uploadAvatar mem_env upload_req) world0))
     = [Fail (CustomError uploadError),
        Success ModifyOk (UrlData ''/public/uploads/avatar/undefined'')]
 \<and> map user_avatar (users world0) = [JStr ''/public/uploads/avatar/1.png'']
 \<and> map user_avatar (users (world_of (run (uploadAvatar mem_env upload_req) world0)))
     = [JStr ''/public/uploads/avatar/undefined'']"
  by (simp add: uploadAvatar_def prog_defs mem_defs req_defs)

text \<open>
  The same on every world: whenever the avatar store throws and draining the stream
  returns, the record update with the path ending in ``undefined'' is the next call.
\<close>

lemma uploadAvatar_continues_after_store_failure:
  assumes "getFileStream env w = (Inr stream, wa)"
    and "toArray env stream wa = (Inr parts, wb)"
    and "saveAvatar env (concat parts) (ctx_userId req) wb = (Inl e, wc)"
    and "sendToWormhole env stream wc = (Inr (), wd)"
    and "updateAvatar env ''/public/uploads/avatar/undefined'' (ctx_userId req) wd = (r, we)"
  shows "calls (trace_of (run (uploadAvatar env req) w))
           = [GetFileStream, ToArray stream, SaveAvatar (concat parts) (ctx_userId req),
              SendToWormhole stream,
              UpdateAvatar ''/public/uploads/avatar/undefined'' (ctx_userId req)]
       \<and> avatar_updates (calls (trace_of (run (uploadAvatar env req) w)))
           = [(''/public/uploads/avatar/undefined'', ctx_userId req)]
       \<and> world_of (run (uploadAvatar env req) w) = we"
  using assms by (cases r) (simp_all add: uploadAvatar_def prog_defs Let_def)

end
